theory Spec2Isabelle
  imports Complex_Main "HOL-Library.AList"
begin

section \<open>JavaScript values\<close>

text \<open>
  A JavaScript number is an IEEE double. The comparisons of the client only test a number
  against the constants 80 and 1000, which are exact doubles, so a number is either a
  finite value (read as a real), one of the two infinities, or NaN. Every comparison with
  NaN is false.
\<close>

datatype number = Finite real | PosInfinity | NegInfinity | NaN

fun number_lt :: "number \<Rightarrow> number \<Rightarrow> bool" where
  "number_lt (Finite a) (Finite b) = (a < b)"
| "number_lt (Finite a) PosInfinity = True"
| "number_lt NegInfinity (Finite b) = True"
| "number_lt NegInfinity PosInfinity = True"
| "number_lt _ _ = False"

definition number_gt :: "number \<Rightarrow> number \<Rightarrow> bool" where
  "number_gt a b = number_lt b a"

text \<open>
  The values an option of the client can hold. Functions, objects and symbols are
  identified by an address.
\<close>

datatype jsval =
    JUndefined
  | JNull
  | JBoolean bool
  | JNumber number
  | JString string
  | JBigInt int
  | JSymbol nat
  | JFunction nat
  | JObject nat

fun typeof :: "jsval \<Rightarrow> string" where
  "typeof JUndefined = ''undefined''"
| "typeof JNull = ''object''"
| "typeof (JBoolean _) = ''boolean''"
| "typeof (JNumber _) = ''number''"
| "typeof (JString _) = ''string''"
| "typeof (JBigInt _) = ''bigint''"
| "typeof (JSymbol _) = ''symbol''"
| "typeof (JFunction _) = ''function''"
| "typeof (JObject _) = ''object''"

text \<open>Truthiness, as \<open>||\<close>, \<open>!\<close> and \<open>if\<close> read a value.\<close>

fun truthy :: "jsval \<Rightarrow> bool" where
  "truthy JUndefined = False"
| "truthy JNull = False"
| "truthy (JBoolean b) = b"
| "truthy (JNumber (Finite r)) = (r \<noteq> 0)"
| "truthy (JNumber NaN) = False"
| "truthy (JNumber _) = True"
| "truthy (JString s) = (s \<noteq> [])"
| "truthy (JBigInt i) = (i \<noteq> 0)"
| "truthy (JSymbol _) = True"
| "truthy (JFunction _) = True"
| "truthy (JObject _) = True"

definition js_or :: "jsval \<Rightarrow> jsval \<Rightarrow> jsval" where
  "js_or a b = (if truthy a then a else b)"

datatype error = Error string

section \<open>Client options and authentication\<close>

record ClientOptions =
  publicApiKey :: jsval
  authEndpoint :: jsval
  throttle :: jsval
  liveblocksServer :: jsval
  publicAuthorizeEndpoint :: jsval
  WebSocketPolyfill :: jsval
  fetchPolyfill :: jsval

datatype Authentication =
    Public string jsval
  | Private string
  | Custom nat

definition getThrottleDelayFromOptions :: "ClientOptions \<Rightarrow> error + number" where
  "getThrottleDelayFromOptions options =
     (case throttle options of
        JUndefined \<Rightarrow> Inr (Finite 100)
      | JNumber n \<Rightarrow>
          if number_lt n (Finite 80) \<or> number_gt n (Finite 1000)
          then Inl (Error ''throttle should be a number between 80 and 1000.'')
          else Inr n
      | _ \<Rightarrow> Inl (Error ''throttle should be a number between 80 and 1000.''))"

definition invalid_options_message :: string where
  "invalid_options_message =
     ''Invalid Liveblocks client options. For more information: https://liveblocks.io/docs/api-reference/liveblocks-client#createClient''"

definition prepareAuthentication :: "ClientOptions \<Rightarrow> error + Authentication" where
  "prepareAuthentication clientOptions =
     (case publicApiKey clientOptions of
        JString key \<Rightarrow>
          Inr (Public key
                 (js_or (publicAuthorizeEndpoint clientOptions)
                        (JString ''https://liveblocks.io/api/public/authorize'')))
      | _ \<Rightarrow>
          (case authEndpoint clientOptions of
             JString url \<Rightarrow> Inr (Private url)
           | JFunction f \<Rightarrow> Inr (Custom f)
           | _ \<Rightarrow> Inl (Error invalid_options_message)))"

section \<open>The client and its pool of rooms\<close>

text \<open>
  Modelled from the spec: \<open>createRoom\<close> and the room methods \<open>connect\<close>,
  \<open>disconnect\<close>, \<open>onNavigatorOnline\<close> and \<open>onVisibilityChange\<close> belong to the module
  \<open>./room\<close>, which is not among the sources. The spec describes a room as an object
  built from its configuration, on which the pool initiates the connection, disconnects
  and forwards the signals of the environment. A room is therefore represented by the
  two arguments of its \<open>createRoom\<close> call and by the list of the methods invoked on it
  so far. Rooms are objects with an identity: they live in a heap, and the address of a new
  room is the next free position of the heap.
\<close>

record RoomOptions =
  room_defaultPresence :: jsval
  room_defaultStorageRoot :: jsval

record RoomContext =
  ctx_room :: string
  ctx_throttleDelay :: number
  ctx_WebSocketPolyfill :: jsval
  ctx_fetchPolyfill :: jsval
  ctx_liveblocksServer :: jsval
  ctx_authentication :: Authentication

datatype room_call = Connect | Disconnect | OnNavigatorOnline | OnVisibilityChange string

record InternalRoom =
  room_options :: RoomOptions
  room_context :: RoomContext
  calls :: "room_call list"

definition createRoom :: "RoomOptions \<Rightarrow> RoomContext \<Rightarrow> InternalRoom" where
  "createRoom opts ctx = \<lparr>room_options = opts, room_context = ctx, calls = []\<rparr>"

text \<open>The public \<open>room\<close> member of the internal room at an address.\<close>

datatype Room = RoomOf nat

text \<open>
  The closure of \<open>createClient\<close>: the options it was given, the throttle delay it
  computed, the pool \<open>rooms\<close> (a \<open>Map\<close>, which keeps its entries in the order of their
  insertion), and the heap of the rooms created so far.
\<close>

record Client =
  clientOptions :: ClientOptions
  throttleDelay :: number
  rooms :: "(string \<times> nat) list"
  heap :: "InternalRoom list"

text \<open>A method call on the room at an address.\<close>

definition invoke :: "room_call \<Rightarrow> nat \<Rightarrow> Client \<Rightarrow> Client" where
  "invoke m a c = c\<lparr>heap := (heap c)[a := (heap c ! a)\<lparr>calls := calls (heap c ! a) @ [m]\<rparr>]\<rparr>"

definition createClient :: "ClientOptions \<Rightarrow> error + Client" where
  "createClient options =
     (case getThrottleDelayFromOptions options of
        Inl e \<Rightarrow> Inl e
      | Inr delay \<Rightarrow>
          Inr \<lparr>clientOptions = options, throttleDelay = delay, rooms = [], heap = []\<rparr>)"

definition getRoom :: "Client \<Rightarrow> string \<Rightarrow> Room option" where
  "getRoom c roomId =
     (case map_of (rooms c) roomId of Some internalRoom \<Rightarrow> Some (RoomOf internalRoom) | None \<Rightarrow> None)"

record EnterOptions =
  defaultPresence :: jsval
  defaultStorageRoot :: jsval
  DO_NOT_USE_withoutConnecting :: jsval

definition no_enter_options :: EnterOptions where
  "no_enter_options =
     \<lparr>defaultPresence = JUndefined, defaultStorageRoot = JUndefined,
      DO_NOT_USE_withoutConnecting = JUndefined\<rparr>"

text \<open>The default value \<open>{}\<close> of the second parameter of \<open>enter\<close>.\<close>

definition enter_options :: "EnterOptions option \<Rightarrow> EnterOptions" where
  "enter_options given = (case given of None \<Rightarrow> no_enter_options | Some opts \<Rightarrow> opts)"

definition enter :: "Client \<Rightarrow> string \<Rightarrow> EnterOptions option \<Rightarrow> (error + Room) \<times> Client" where
  "enter c roomId given =
     (let options = enter_options given in
      case map_of (rooms c) roomId of
        Some existingInternalRoom \<Rightarrow> (Inr (RoomOf existingInternalRoom), c)
      | None \<Rightarrow>
          (case prepareAuthentication (clientOptions c) of
             Inl e \<Rightarrow> (Inl e, c)
           | Inr auth \<Rightarrow>
               let newInternalRoom =
                     createRoom
                       \<lparr>room_defaultPresence = defaultPresence options,
                        room_defaultStorageRoot = defaultStorageRoot options\<rparr>
                       \<lparr>ctx_room = roomId,
                        ctx_throttleDelay = throttleDelay c,
                        ctx_WebSocketPolyfill = WebSocketPolyfill (clientOptions c),
                        ctx_fetchPolyfill = fetchPolyfill (clientOptions c),
                        ctx_liveblocksServer =
                          js_or (liveblocksServer (clientOptions c)) (JString ''wss://liveblocks.net/v5''),
                        ctx_authentication = auth\<rparr>;
                   a = length (heap c);
                   c1 = c\<lparr>heap := heap c @ [newInternalRoom],
                          rooms := AList.update roomId a (rooms c)\<rparr>;
                   c2 = (if \<not> truthy (DO_NOT_USE_withoutConnecting options)
                         then invoke Connect a c1 else c1)
               in (Inr (RoomOf a), c2)))"

definition leave :: "Client \<Rightarrow> string \<Rightarrow> Client" where
  "leave c roomId =
     (case map_of (rooms c) roomId of
        Some room \<Rightarrow> (invoke Disconnect room c)\<lparr>rooms := AList.delete roomId (rooms c)\<rparr>
      | None \<Rightarrow> c)"

text \<open>
  The two listeners that \<open>createClient\<close> registers, on \<open>window\<close> for the event
  \<open>online\<close> and on \<open>document\<close> for the event \<open>visibilitychange\<close>, when the host has
  these objects: each calls a method on every pooled room, in the order of the pool.
\<close>

definition online_listener :: "Client \<Rightarrow> Client" where
  "online_listener c = foldl (\<lambda>c' entry. invoke OnNavigatorOnline (snd entry) c') c (rooms c)"

definition visibilitychange_listener :: "string \<Rightarrow> Client \<Rightarrow> Client" where
  "visibilitychange_listener visibilityState c =
     foldl (\<lambda>c' entry. invoke (OnVisibilityChange visibilityState) (snd entry) c') c (rooms c)"

text \<open>
  The states a client can be in: the one \<open>createClient\<close> returns, and those that calls
  of \<open>enter\<close> and \<open>leave\<close> and the two listeners lead to.
\<close>

inductive reachable :: "Client \<Rightarrow> bool" where
  r_create: "createClient options = Inr c \<Longrightarrow> reachable c"
| r_enter: "reachable c \<Longrightarrow> reachable (snd (enter c roomId given))"
| r_leave: "reachable c \<Longrightarrow> reachable (leave c roomId)"
| r_online: "reachable c \<Longrightarrow> reachable (online_listener c)"
| r_visibilitychange: "reachable c \<Longrightarrow> reachable (visibilitychange_listener visibilityState c)"

text \<open>
  The room that \<open>enter\<close> creates for an absent room id: its configuration comes from the
  options of the client and of the call, and \<open>connect\<close> is its only call, unless the
  flag \<open>DO_NOT_USE_withoutConnecting\<close> is set.
\<close>

definition new_room :: "Client \<Rightarrow> string \<Rightarrow> EnterOptions option \<Rightarrow> Authentication \<Rightarrow> InternalRoom" where
  "new_room c roomId given auth =
     \<lparr>room_options =
        \<lparr>room_defaultPresence = defaultPresence (enter_options given),
         room_defaultStorageRoot = defaultStorageRoot (enter_options given)\<rparr>,
      room_context =
        \<lparr>ctx_room = roomId,
         ctx_throttleDelay = throttleDelay c,
         ctx_WebSocketPolyfill = WebSocketPolyfill (clientOptions c),
         ctx_fetchPolyfill = fetchPolyfill (clientOptions c),
         ctx_liveblocksServer =
           (if truthy (liveblocksServer (clientOptions c)) then liveblocksServer (clientOptions c)
            else JString ''wss://liveblocks.net/v5''),
         ctx_authentication = auth\<rparr>,
      calls = (if truthy (DO_NOT_USE_withoutConnecting (enter_options given)) then [] else [Connect])\<rparr>"

section \<open>Messages from the client to the server\<close>

text \<open>
  Modelled from the spec: the types \<open>Json\<close>, \<open>JsonObject\<close> and \<open>Op\<close> are imported from
  modules that are not among the sources. A JSON value is null, a boolean, a number, a
  string, an array or an object. The operation kinds are the seven of the spec, and each
  operation carries an \<open>opId\<close>, the target \<open>id\<close> and its kind-specific fields, absent
  fields being \<open>undefined\<close>.
\<close>

datatype Json =
    JsonNull
  | JsonBoolean bool
  | JsonNumber number
  | JsonString string
  | JsonArray "Json list"
  | JsonObject "(string \<times> Json) list"

type_synonym JsonObject = "(string \<times> Json) list"

datatype OpCode =
    CREATE_OBJECT
  | CREATE_MAP
  | CREATE_LIST
  | CREATE_REGISTER
  | UPDATE_OBJECT
  | SET_PARENT_KEY
  | DELETE_CRDT

record Op =
  op_type :: OpCode
  op_opId :: "string option"
  op_id :: string
  op_parentId :: "string option"
  op_parentKey :: "string option"
  op_data :: "Json option"

datatype ClientMsgCode =
    UPDATE_PRESENCE
  | BROADCAST_EVENT
  | FETCH_STORAGE
  | UPDATE_STORAGE

fun ClientMsgCode_value :: "ClientMsgCode \<Rightarrow> nat" where
  "ClientMsgCode_value UPDATE_PRESENCE = 100"
| "ClientMsgCode_value BROADCAST_EVENT = 103"
| "ClientMsgCode_value FETCH_STORAGE = 200"
| "ClientMsgCode_value UPDATE_STORAGE = 201"

datatype ClientMsg =
    BroadcastEventClientMsg Json
  | UpdatePresenceClientMsg JsonObject "number option"
  | UpdateStorageClientMsg "Op list"
  | FetchStorageClientMsg

text \<open>The \<open>type\<close> member of a message.\<close>

fun ClientMsg_type :: "ClientMsg \<Rightarrow> ClientMsgCode" where
  "ClientMsg_type (BroadcastEventClientMsg event) = BROADCAST_EVENT"
| "ClientMsg_type (UpdatePresenceClientMsg data targetActor) = UPDATE_PRESENCE"
| "ClientMsg_type (UpdateStorageClientMsg ops) = UPDATE_STORAGE"
| "ClientMsg_type FetchStorageClientMsg = FETCH_STORAGE"

section \<open>CRDT nodes\<close>

text \<open>
  Modelled from the spec: \<open>Doc\<close> is an interface whose implementation is not among the
  sources. The spec describes the document as the index from node ids to nodes together
  with an allocator of operation ids: \<open>addItem\<close> and \<open>deleteItem\<close> update the index, and
  \<open>generateOpId\<close> returns the next id of a supply and advances it.
\<close>

record Doc =
  doc_roomId :: string
  doc_items :: "string \<rightharpoonup> nat"
  doc_opIds :: "nat \<Rightarrow> string"
  doc_opClock :: nat

definition addItem :: "Doc \<Rightarrow> string \<Rightarrow> nat \<Rightarrow> Doc" where
  "addItem d ident liveItem = d\<lparr>doc_items := (doc_items d)(ident \<mapsto> liveItem)\<rparr>"

definition deleteItem :: "Doc \<Rightarrow> string \<Rightarrow> Doc" where
  "deleteItem d ident = d\<lparr>doc_items := (doc_items d)(ident := None)\<rparr>"

definition generateOpId :: "Doc \<Rightarrow> string \<times> Doc" where
  "generateOpId d = (doc_opIds d (doc_opClock d), d\<lparr>doc_opClock := Suc (doc_opClock d)\<rparr>)"

text \<open>
  A node holds the four private members of \<open>AbstractCrdt\<close> and the members of its own
  class: a register holds \<open>_data\<close>. Nodes and documents are objects with an identity,
  kept in a store and referred to by address.

  Modelled from the spec: the container classes \<open>LiveObject\<close>, \<open>LiveMap\<close> and
  \<open>LiveList\<close> are not among the sources. The spec gives each of them an index from
  string keys (positions, for a list) to child nodes; a container holds this index, as
  a list of keys and addresses.
\<close>

datatype crdt_class = LiveRegister Json | LiveContainer "(string \<times> nat) list"

record crdt =
  crdt_parent :: "nat option"
  crdt_doc :: "nat option"
  crdt_id :: "string option"
  crdt_parentKey :: "string option"
  crdt_class :: crdt_class

record store =
  nodes :: "nat \<Rightarrow> crdt"
  docs :: "nat \<Rightarrow> Doc"

datatype 'u ApplyResult = Modified "Op list" 'u | NotModified

text \<open>The constructor of \<open>LiveRegister\<close> and the getter \<open>data\<close>.\<close>

definition LiveRegister_new :: "Json \<Rightarrow> crdt" where
  "LiveRegister_new d =
     \<lparr>crdt_parent = None, crdt_doc = None, crdt_id = None, crdt_parentKey = None,
      crdt_class = LiveRegister d\<rparr>"

definition data_of :: "crdt \<Rightarrow> Json option" where
  "data_of n = (case crdt_class n of LiveRegister d \<Rightarrow> Some d | LiveContainer children \<Rightarrow> None)"

definition getParentKeyOrThrow :: "store \<Rightarrow> nat \<Rightarrow> error + string" where
  "getParentKeyOrThrow s this =
     (case crdt_parentKey (nodes s this) of
        None \<Rightarrow> Inl (Error ''Parent key is missing'')
      | Some key \<Rightarrow> Inr key)"

definition AbstractCrdt_roomId :: "store \<Rightarrow> nat \<Rightarrow> string option" where
  "AbstractCrdt_roomId s this =
     (case crdt_doc (nodes s this) of Some d \<Rightarrow> Some (doc_roomId (docs s d)) | None \<Rightarrow> None)"

definition LiveRegister_attachChild :: "store \<Rightarrow> nat \<Rightarrow> Op \<Rightarrow> (error + 'u ApplyResult) \<times> store" where
  "LiveRegister_attachChild s this op = (Inl (Error ''Method not implemented.''), s)"

definition LiveRegister_detachChild :: "store \<Rightarrow> nat \<Rightarrow> nat \<Rightarrow> (error + 'u ApplyResult) \<times> store" where
  "LiveRegister_detachChild s this child = (Inl (Error ''Method not implemented.''), s)"

text \<open>
  The call \<open>parent._detachChild(child)\<close>, dispatched on the class of the parent. The
  method of the container classes is a parameter.
\<close>

definition detachChild ::
  "(store \<Rightarrow> nat \<Rightarrow> nat \<Rightarrow> (error + 'u ApplyResult) \<times> store) \<Rightarrow>
   store \<Rightarrow> nat \<Rightarrow> nat \<Rightarrow> (error + 'u ApplyResult) \<times> store" where
  "detachChild container s parent child =
     (case crdt_class (nodes s parent) of
        LiveRegister d \<Rightarrow> LiveRegister_detachChild s parent child
      | LiveContainer children \<Rightarrow> container s parent child)"

definition AbstractCrdt_apply ::
  "(store \<Rightarrow> nat \<Rightarrow> nat \<Rightarrow> (error + 'u ApplyResult) \<times> store) \<Rightarrow>
   store \<Rightarrow> nat \<Rightarrow> Op \<Rightarrow> bool \<Rightarrow> (error + 'u ApplyResult) \<times> store" where
  "AbstractCrdt_apply container s this op isLocal =
     (case op_type op of
        DELETE_CRDT \<Rightarrow>
          (case crdt_parent (nodes s this) of
             Some parent \<Rightarrow>
               (case crdt_parentKey (nodes s this) of
                  Some key \<Rightarrow> detachChild container s parent this
                | None \<Rightarrow> (Inr NotModified, s))
           | None \<Rightarrow> (Inr NotModified, s))
      | _ \<Rightarrow> (Inr NotModified, s))"

definition setParentLink :: "store \<Rightarrow> nat \<Rightarrow> nat \<Rightarrow> string \<Rightarrow> (error + unit) \<times> store" where
  "setParentLink s this parent key =
     (if crdt_parent (nodes s this) \<noteq> None \<and> crdt_parent (nodes s this) \<noteq> Some parent
      then (Inl (Error ''Cannot attach parent if it already exist''), s)
      else (Inr (),
            s\<lparr>nodes := (nodes s)
                 (this := (nodes s this)\<lparr>crdt_parentKey := Some key, crdt_parent := Some parent\<rparr>)\<rparr>))"

text \<open>The empty string is the only string that is not truthy.\<close>

definition attach :: "store \<Rightarrow> nat \<Rightarrow> string \<Rightarrow> nat \<Rightarrow> (error + unit) \<times> store" where
  "attach s this ident doc =
     (if (case crdt_id (nodes s this) of Some i \<Rightarrow> i \<noteq> [] | None \<Rightarrow> False) \<or>
         crdt_doc (nodes s this) \<noteq> None
      then (Inl (Error ''Cannot attach if CRDT is already attached''), s)
      else
        (let s1 = s\<lparr>docs := (docs s)(doc := addItem (docs s doc) ident this)\<rparr>
         in (Inr (),
             s1\<lparr>nodes := (nodes s1)
                   (this := (nodes s1 this)\<lparr>crdt_id := Some ident, crdt_doc := Some doc\<rparr>)\<rparr>)))"

definition detach :: "store \<Rightarrow> nat \<Rightarrow> store" where
  "detach s this =
     (let s1 =
        (case crdt_doc (nodes s this) of
           Some doc \<Rightarrow>
             (case crdt_id (nodes s this) of
                Some i \<Rightarrow>
                  if i \<noteq> [] then s\<lparr>docs := (docs s)(doc := deleteItem (docs s doc) i)\<rparr> else s
              | None \<Rightarrow> s)
         | None \<Rightarrow> s)
      in s1\<lparr>nodes := (nodes s1)
                (this := (nodes s1 this)\<lparr>crdt_parent := None, crdt_doc := None\<rparr>)\<rparr>)"

definition LiveRegister_apply ::
  "(store \<Rightarrow> nat \<Rightarrow> nat \<Rightarrow> (error + 'u ApplyResult) \<times> store) \<Rightarrow>
   store \<Rightarrow> nat \<Rightarrow> Op \<Rightarrow> bool \<Rightarrow> (error + 'u ApplyResult) \<times> store" where
  "LiveRegister_apply container s this op isLocal = AbstractCrdt_apply container s this op isLocal"

definition LiveRegister_serialize ::
  "store \<Rightarrow> nat \<Rightarrow> string option \<Rightarrow> string option \<Rightarrow> nat option \<Rightarrow> (error + Op list) \<times> store" where
  "LiveRegister_serialize s this parentId parentKey doc =
     (case crdt_id (nodes s this) of
        None \<Rightarrow> (Inl (Error ''Cannot serialize register if parentId or parentKey is undefined''), s)
      | Some ident \<Rightarrow>
          if parentId = None \<or> parentKey = None
          then (Inl (Error ''Cannot serialize register if parentId or parentKey is undefined''), s)
          else
            (let (opId, s1) =
                   (case doc of
                      None \<Rightarrow> (None, s)
                    | Some d \<Rightarrow>
                        (Some (fst (generateOpId (docs s d))),
                         s\<lparr>docs := (docs s)(d := snd (generateOpId (docs s d)))\<rparr>))
             in (Inr [\<lparr>op_type = CREATE_REGISTER, op_opId = opId, op_id = ident,
                       op_parentId = parentId, op_parentKey = parentKey,
                       op_data = data_of (nodes s1 this)\<rparr>],
                 s1)))"

text \<open>
  Modelled from the spec: \<open>nn\<close> comes from the module \<open>./assert\<close>, which is not among
  the sources, and the spec does not describe it. Its name and its two uses are those of
  a non-null assertion: it returns its first argument, and throws an error with the given
  message when that argument is null or undefined.
\<close>

definition nn :: "'a option \<Rightarrow> string \<Rightarrow> error + 'a" where
  "nn v msg = (case v of None \<Rightarrow> Inl (Error msg) | Some x \<Rightarrow> Inr x)"

record SerializedRegister =
  sr_parentId :: string
  sr_parentKey :: string
  sr_data :: "Json option"

definition LiveRegister_toSerializedCrdt :: "store \<Rightarrow> nat \<Rightarrow> error + SerializedRegister" where
  "LiveRegister_toSerializedCrdt s this =
     (case nn (case crdt_parent (nodes s this) of
                 None \<Rightarrow> None
               | Some parent \<Rightarrow> crdt_id (nodes s parent))
              ''Cannot serialize Register if parentId is missing'' of
        Inl e \<Rightarrow> Inl e
      | Inr parentId \<Rightarrow>
          (case nn (crdt_parentKey (nodes s this))
                   ''Cannot serialize Register if parentKey is missing'' of
             Inl e \<Rightarrow> Inl e
           | Inr parentKey \<Rightarrow>
               Inr \<lparr>sr_parentId = parentId, sr_parentKey = parentKey,
                    sr_data = data_of (nodes s this)\<rparr>))"

text \<open>
  Modelled from the spec: the \<open>_detachChild\<close> of the container classes is not among
  the sources. The spec calls a node detached when it has no parent link and is not
  registered in the index of the document, and lets every mutation synthesize its
  inverse ops and a \<open>StorageUpdate\<close> that describes the delta. The \<open>_detachChild\<close> of a
  container therefore takes as inverse the ops that create the child again in its place
  (the \<open>_serialize\<close> of the child under the id of the container, the key of the child
  and the document of the container; the \<open>_serialize\<close> of the container classes is
  absent, and the inverse of a child that is a container is left empty), removes the
  child from the index of the container, detaches the child by its \<open>_detach\<close>, and
  returns the inverse and the update: the container and the key that lost its child.
\<close>

datatype StorageUpdate = ChildDeleted nat "string option"

fun without_child :: "nat \<Rightarrow> crdt_class \<Rightarrow> crdt_class" where
  "without_child child (LiveContainer children) =
     LiveContainer (filter (\<lambda>entry. snd entry \<noteq> child) children)"
| "without_child child (LiveRegister d) = LiveRegister d"

definition LiveContainer_detachChild ::
  "store \<Rightarrow> nat \<Rightarrow> nat \<Rightarrow> (error + StorageUpdate ApplyResult) \<times> store" where
  "LiveContainer_detachChild s this child =
     (case (case crdt_class (nodes s child) of
              LiveRegister d \<Rightarrow>
                LiveRegister_serialize s child (crdt_id (nodes s this))
                  (crdt_parentKey (nodes s child)) (crdt_doc (nodes s this))
            | LiveContainer children \<Rightarrow> (Inr [], s)) of
        (Inl e, s1) \<Rightarrow> (Inl e, s1)
      | (Inr reverse, s1) \<Rightarrow>
          (let s2 = s1\<lparr>nodes := (nodes s1)
                         (this := (nodes s1 this)
                            \<lparr>crdt_class := without_child child (crdt_class (nodes s1 this))\<rparr>)\<rparr>
           in (Inr (Modified reverse (ChildDeleted this (crdt_parentKey (nodes s child)))),
               detach s2 child)))"

text \<open>
  The value of \<open>_data\<close> over a sequence of calls: the methods of a register and those it
  inherits, called on any nodes of the store with any arguments, one after the other. A
  call that throws leaves the store as it is at that point, and the sequence goes on, as
  when the caller catches the error.
\<close>

datatype method_call =
    Call_apply nat Op bool
  | Call_setParentLink nat nat string
  | Call_attach nat string nat
  | Call_detach nat
  | Call_serialize nat "string option" "string option" "nat option"
  | Call_attachChild nat Op
  | Call_detachChild nat nat

fun call ::
  "(store \<Rightarrow> nat \<Rightarrow> nat \<Rightarrow> (error + 'u ApplyResult) \<times> store) \<Rightarrow> store \<Rightarrow> method_call \<Rightarrow> store" where
  "call container s (Call_apply this op isLocal) = snd (LiveRegister_apply container s this op isLocal)"
| "call container s (Call_setParentLink this parent key) = snd (setParentLink s this parent key)"
| "call container s (Call_attach this ident doc) = snd (attach s this ident doc)"
| "call container s (Call_detach this) = detach s this"
| "call container s (Call_serialize this parentId parentKey doc) =
     snd (LiveRegister_serialize s this parentId parentKey doc)"
| "call container s (Call_attachChild this op) =
     snd (LiveRegister_attachChild s this op :: (error + 'u ApplyResult) \<times> store)"
| "call container s (Call_detachChild this child) = snd (detachChild container s this child)"

text \<open>A \<open>_detachChild\<close> of the container classes that assigns to no \<open>_data\<close>.\<close>

definition keeps_data :: "(store \<Rightarrow> nat \<Rightarrow> nat \<Rightarrow> (error + 'u ApplyResult) \<times> store) \<Rightarrow> bool" where
  "keeps_data container \<longleftrightarrow>
     (\<forall>s parent child a. data_of (nodes (snd (container s parent child)) a) = data_of (nodes s a))"

section \<open>Concrete clients and stores\<close>

definition options_without_auth :: ClientOptions where
  "options_without_auth =
     \<lparr>publicApiKey = JUndefined, authEndpoint = JUndefined, throttle = JUndefined,
      liveblocksServer = JUndefined, publicAuthorizeEndpoint = JUndefined,
      WebSocketPolyfill = JUndefined, fetchPolyfill = JUndefined\<rparr>"

definition options_with_both :: ClientOptions where
  "options_with_both =
     \<lparr>publicApiKey = JString ''pk_X'', authEndpoint = JString ''/api/auth'', throttle = JUndefined,
      liveblocksServer = JUndefined, publicAuthorizeEndpoint = JUndefined,
      WebSocketPolyfill = JUndefined, fetchPolyfill = JUndefined\<rparr>"

definition options_public :: ClientOptions where
  "options_public =
     \<lparr>publicApiKey = JString ''pk_X'', authEndpoint = JUndefined, throttle = JUndefined,
      liveblocksServer = JUndefined, publicAuthorizeEndpoint = JUndefined,
      WebSocketPolyfill = JUndefined, fetchPolyfill = JUndefined\<rparr>"

definition client_without_auth :: Client where
  "client_without_auth =
     \<lparr>clientOptions = options_without_auth, throttleDelay = Finite 100, rooms = [], heap = []\<rparr>"

definition client_with_both :: Client where
  "client_with_both =
     \<lparr>clientOptions = options_with_both, throttleDelay = Finite 100, rooms = [], heap = []\<rparr>"

definition client_public :: Client where
  "client_public =
     \<lparr>clientOptions = options_public, throttleDelay = Finite 100, rooms = [], heap = []\<rparr>"

definition client_in_r1 :: Client where
  "client_in_r1 = online_listener (snd (enter client_public ''r1'' None))"

text \<open>
  A store with one document, a container at address 1 (the root) and a register at
  address 2, attached under the key \<open>x\<close> of the root; the other addresses hold detached
  registers. The last definition is a \<open>_detachChild\<close> that only detaches the child.
\<close>

definition root_doc :: Doc where
  "root_doc =
     \<lparr>doc_roomId = ''r1'', doc_items = [''0:0'' \<mapsto> 1, ''1:1'' \<mapsto> 2],
      doc_opIds = (\<lambda>n. replicate (Suc n) CHR ''o''), doc_opClock = 0\<rparr>"

definition root_node :: crdt where
  "root_node =
     \<lparr>crdt_parent = None, crdt_doc = Some 0, crdt_id = Some ''0:0'', crdt_parentKey = None,
      crdt_class = LiveContainer [(''x'', 2)]\<rparr>"

definition register_node :: crdt where
  "register_node =
     \<lparr>crdt_parent = Some 1, crdt_doc = Some 0, crdt_id = Some ''1:1'', crdt_parentKey = Some ''x'',
      crdt_class = LiveRegister (JsonNumber (Finite 5))\<rparr>"

definition example_store :: store where
  "example_store =
     \<lparr>nodes = (\<lambda>a. LiveRegister_new JsonNull)(1 := root_node, 2 := register_node),
      docs = (\<lambda>a. root_doc)\<rparr>"

definition delete_op :: Op where
  "delete_op =
     \<lparr>op_type = DELETE_CRDT, op_opId = Some ''2:0'', op_id = ''1:1'', op_parentId = None,
      op_parentKey = None, op_data = None\<rparr>"

definition container_detachChild :: "store \<Rightarrow> nat \<Rightarrow> nat \<Rightarrow> (error + unit ApplyResult) \<times> store" where
  "container_detachChild s parent child = (Inr (Modified [] ()), detach s child)"

section \<open>The tests of \<open>typeof\<close>\<close>

text \<open>
  The functions of the client are written by cases on the value; these are the cases
  that the tests \<open>typeof v === "number"\<close>, \<open>"string"\<close> and \<open>"function"\<close> select, and
  \<open>v === undefined\<close> selects \<open>JUndefined\<close>.
\<close>

lemma typeof_number: "typeof v = ''number'' \<longleftrightarrow> (\<exists>n. v = JNumber n)"
  by (cases v) simp_all

lemma typeof_string: "typeof v = ''string'' \<longleftrightarrow> (\<exists>s. v = JString s)"
  by (cases v) simp_all

lemma typeof_function: "typeof v = ''function'' \<longleftrightarrow> (\<exists>f. v = JFunction f)"
  by (cases v) simp_all

section \<open>The throttle delay\<close>

lemma getThrottleDelay_undefined:
  "throttle options = JUndefined \<Longrightarrow> getThrottleDelayFromOptions options = Inr (Finite 100)"
  by (simp add: getThrottleDelayFromOptions_def)

lemma getThrottleDelay_in_range:
  "throttle options = JNumber (Finite r) \<Longrightarrow> 80 \<le> r \<Longrightarrow> r \<le> 1000 \<Longrightarrow>
   getThrottleDelayFromOptions options = Inr (Finite r)"
  by (simp add: getThrottleDelayFromOptions_def number_gt_def)

lemma getThrottleDelay_rejected:
  assumes "throttle options \<noteq> JUndefined" and "throttle options \<noteq> JNumber NaN"
    and "\<And>r. throttle options = JNumber (Finite r) \<Longrightarrow> r < 80 \<or> 1000 < r"
  shows "getThrottleDelayFromOptions options =
           Inl (Error ''throttle should be a number between 80 and 1000.'')"
proof (cases "throttle options")
  case (JNumber n)
  with assms show ?thesis
    by (cases n) (auto simp: getThrottleDelayFromOptions_def number_gt_def)
qed (use assms in \<open>simp_all add: getThrottleDelayFromOptions_def\<close>)

lemma createClient_throws_before_any_room:
  "getThrottleDelayFromOptions options = Inl e \<Longrightarrow> createClient options = Inl e"
  by (simp add: createClient_def)

text \<open>
  C1 holds for every throttle but one, by the three lemmas above: an undefined throttle
  gives 100, a number from 80 to 1000 gives itself, and every other value except NaN
  makes \<open>createClient\<close> throw before it builds the pool. NaN is a number that is not
  between 80 and 1000, and both comparisons of the guard are false on it: the throttle
  delay is NaN and \<open>createClient\<close> returns a client.
\<close>

theorem createClient_throttle_NaN:
  "getThrottleDelayFromOptions (options\<lparr>throttle := JNumber NaN\<rparr>) = Inr NaN \<and>
   createClient (options\<lparr>throttle := JNumber NaN\<rparr>) =
     Inr \<lparr>clientOptions = options\<lparr>throttle := JNumber NaN\<rparr>, throttleDelay = NaN,
          rooms = [], heap = []\<rparr>"
  by (simp add: createClient_def getThrottleDelayFromOptions_def number_gt_def)

section \<open>Authentication\<close>

lemma prepareAuthentication_fails_iff:
  "isl (prepareAuthentication options) \<longleftrightarrow>
     typeof (publicApiKey options) \<noteq> ''string'' \<and>
     typeof (authEndpoint options) \<noteq> ''string'' \<and>
     typeof (authEndpoint options) \<noteq> ''function''"
  by (cases "publicApiKey options"; cases "authEndpoint options")
     (simp_all add: prepareAuthentication_def)

lemma prepareAuthentication_error:
  "prepareAuthentication options = Inl e \<Longrightarrow> e = Error invalid_options_message"
  by (auto simp: prepareAuthentication_def split: jsval.splits)

lemma prepareAuthentication_public:
  "prepareAuthentication options_public =
     Inr (Public ''pk_X'' (JString ''https://liveblocks.io/api/public/authorize''))"
  by (simp add: prepareAuthentication_def options_public_def js_or_def)

lemma prepareAuthentication_without_auth:
  "prepareAuthentication options_without_auth = Inl (Error invalid_options_message)"
  by (simp add: prepareAuthentication_def options_without_auth_def)

section \<open>The pool\<close>

lemma createClient_Inr:
  "createClient options = Inr c \<Longrightarrow>
   clientOptions c = options \<and> getThrottleDelayFromOptions options = Inr (throttleDelay c) \<and>
   rooms c = [] \<and> heap c = []"
  by (auto simp: createClient_def split: sum.splits)

lemma createClient_without_auth: "createClient options_without_auth = Inr client_without_auth"
  by (simp add: createClient_def getThrottleDelayFromOptions_def options_without_auth_def
      client_without_auth_def)

lemma createClient_with_both: "createClient options_with_both = Inr client_with_both"
  by (simp add: createClient_def getThrottleDelayFromOptions_def options_with_both_def
      client_with_both_def)

lemma createClient_public: "createClient options_public = Inr client_public"
  by (simp add: createClient_def getThrottleDelayFromOptions_def options_public_def
      client_public_def)

lemma enter_pooled:
  "map_of (rooms c) roomId = Some a \<Longrightarrow> enter c roomId given = (Inr (RoomOf a), c)"
  by (simp add: enter_def)

lemma enter_throws:
  "map_of (rooms c) roomId = None \<Longrightarrow> prepareAuthentication (clientOptions c) = Inl e \<Longrightarrow>
   enter c roomId given = (Inl e, c)"
  by (simp add: enter_def)

lemma enter_creates:
  assumes "map_of (rooms c) roomId = None" and "prepareAuthentication (clientOptions c) = Inr auth"
  shows "enter c roomId given =
           (Inr (RoomOf (length (heap c))),
            c\<lparr>heap := heap c @ [new_room c roomId given auth],
              rooms := AList.update roomId (length (heap c)) (rooms c)\<rparr>)"
  using assms
  by (simp add: enter_def Let_def invoke_def createRoom_def new_room_def js_or_def)

lemma invoke_fields [simp]:
  "clientOptions (invoke m a c) = clientOptions c"
  "throttleDelay (invoke m a c) = throttleDelay c"
  "rooms (invoke m a c) = rooms c"
  "length (heap (invoke m a c)) = length (heap c)"
  by (simp_all add: invoke_def)

lemma invoke_all_fields:
  "clientOptions (foldl (\<lambda>c' entry. invoke m (snd entry) c') c xs) = clientOptions c \<and>
   throttleDelay (foldl (\<lambda>c' entry. invoke m (snd entry) c') c xs) = throttleDelay c \<and>
   rooms (foldl (\<lambda>c' entry. invoke m (snd entry) c') c xs) = rooms c \<and>
   length (heap (foldl (\<lambda>c' entry. invoke m (snd entry) c') c xs)) = length (heap c)"
  by (induction xs arbitrary: c) simp_all

lemma listener_fields [simp]:
  "clientOptions (online_listener c) = clientOptions c"
  "throttleDelay (online_listener c) = throttleDelay c"
  "rooms (online_listener c) = rooms c"
  "length (heap (online_listener c)) = length (heap c)"
  "clientOptions (visibilitychange_listener v c) = clientOptions c"
  "throttleDelay (visibilitychange_listener v c) = throttleDelay c"
  "rooms (visibilitychange_listener v c) = rooms c"
  "length (heap (visibilitychange_listener v c)) = length (heap c)"
  by (simp_all add: online_listener_def visibilitychange_listener_def invoke_all_fields)

lemma leave_fields [simp]:
  "clientOptions (leave c r) = clientOptions c"
  "throttleDelay (leave c r) = throttleDelay c"
  "length (heap (leave c r)) = length (heap c)"
  "map_of (rooms (leave c r)) = (map_of (rooms c))(r := None)"
  by (auto simp: leave_def AList.delete_conv' split: option.splits)

lemma reachable_invariant:
  "reachable c \<Longrightarrow>
     getThrottleDelayFromOptions (clientOptions c) = Inr (throttleDelay c) \<and>
     (\<forall>r a. map_of (rooms c) r = Some a \<longrightarrow> a < length (heap c)) \<and>
     (0 < length (heap c) \<longrightarrow> \<not> isl (prepareAuthentication (clientOptions c)))"
proof (induction rule: reachable.induct)
  case (r_create options c)
  then show ?case using createClient_Inr [of options c] by simp
next
  case (r_enter c roomId given)
  show ?case
  proof (cases "map_of (rooms c) roomId")
    case (Some a)
    then have "snd (enter c roomId given) = c" by (simp add: enter_pooled)
    with r_enter.IH show ?thesis by presburger
  next
    case None
    show ?thesis
    proof (cases "prepareAuthentication (clientOptions c)")
      case (Inl e)
      with None have "snd (enter c roomId given) = c" by (simp add: enter_throws)
      with r_enter.IH show ?thesis by presburger
    next
      case (Inr auth)
      with None r_enter show ?thesis
        by (auto simp: enter_creates AList.update_conv' less_Suc_eq)
    qed
  qed
next
  case (r_leave c roomId)
  then show ?case by (auto split: if_splits)
next
  case (r_online c)
  then show ?case by simp
next
  case (r_visibilitychange c visibilityState)
  then show ?case by simp
qed


lemma client_in_r1_eq:
  "client_in_r1 =
     \<lparr>clientOptions = options_public, throttleDelay = Finite 100, rooms = [(''r1'', 0)],
      heap = [(new_room client_public ''r1'' None
                 (Public ''pk_X'' (JString ''https://liveblocks.io/api/public/authorize'')))
              \<lparr>calls := [Connect, OnNavigatorOnline]\<rparr>]\<rparr>"
proof -
  have "map_of (rooms client_public) ''r1'' = None"
    and "prepareAuthentication (clientOptions client_public) =
           Inr (Public ''pk_X'' (JString ''https://liveblocks.io/api/public/authorize''))"
    by (simp_all add: client_public_def prepareAuthentication_public)
  then show ?thesis
    unfolding client_in_r1_def
    by (simp add: enter_creates online_listener_def invoke_def)
       (simp add: client_public_def new_room_def enter_options_def no_enter_options_def)
qed

lemma client_in_r1_reachable: "reachable client_in_r1"
  unfolding client_in_r1_def
  by (rule r_online, rule r_enter, rule r_create, rule createClient_public)

lemma client_in_r1_rooms: "map_of (rooms client_in_r1) ''r1'' = Some 0"
  by (simp add: client_in_r1_eq)

text \<open>
  C2, as the claim states it, fails: \<open>createClient\<close> returns a client for options with
  neither \<open>publicApiKey\<close> nor \<open>authEndpoint\<close>, and for options with both, and with both
  \<open>enter\<close> then creates a room.
\<close>

theorem createClient_auth_counterexample:
  "publicApiKey options_without_auth = JUndefined \<and>
   authEndpoint options_without_auth = JUndefined \<and>
   \<not> isl (createClient options_without_auth) \<and>
   publicApiKey options_with_both = JString ''pk_X'' \<and>
   authEndpoint options_with_both = JString ''/api/auth'' \<and>
   \<not> isl (createClient options_with_both) \<and>
   prepareAuthentication options_with_both =
     Inr (Public ''pk_X'' (JString ''https://liveblocks.io/api/public/authorize'')) \<and>
   fst (enter (projr (createClient options_with_both)) ''r1'' None) = Inr (RoomOf 0)"
  by (simp add: options_without_auth_def options_with_both_def createClient_def
      getThrottleDelayFromOptions_def enter_def prepareAuthentication_def js_or_def
      enter_options_def no_enter_options_def createRoom_def invoke_def)

text \<open>
  C2, amended: \<open>createClient\<close> does not read \<open>publicApiKey\<close> and \<open>authEndpoint\<close>; it fails
  exactly when the throttle is rejected, whatever these two options are. They are read
  by \<open>prepareAuthentication\<close>, which \<open>enter\<close> calls when it creates a room: it throws
  exactly when \<open>publicApiKey\<close> is not a string and \<open>authEndpoint\<close> is neither a string nor
  a function, the error is the one that refers to the documentation URL, and the first
  \<open>enter\<close> of such a client throws this error and leaves the client as it was. Options
  with both a string \<open>publicApiKey\<close> and an \<open>authEndpoint\<close> are accepted, and the public
  key is used: whatever \<open>authEndpoint\<close> is, a string \<open>publicApiKey\<close> makes
  \<open>prepareAuthentication\<close> return public authentication with that key, and the first
  \<open>enter\<close> of such a client creates a room with this authentication.
\<close>

theorem createClient_defers_authentication:
  "isl (createClient options) = isl (getThrottleDelayFromOptions options) \<and>
   isl (createClient (options\<lparr>publicApiKey := k, authEndpoint := e\<rparr>)) = isl (createClient options) \<and>
   (isl (prepareAuthentication options) \<longleftrightarrow>
      typeof (publicApiKey options) \<noteq> ''string'' \<and>
      typeof (authEndpoint options) \<noteq> ''string'' \<and>
      typeof (authEndpoint options) \<noteq> ''function'') \<and>
   (isl (prepareAuthentication options) \<longrightarrow>
      prepareAuthentication options = Inl (Error invalid_options_message)) \<and>
   (createClient options = Inr c \<and> isl (prepareAuthentication options) \<longrightarrow>
      enter c roomId given = (Inl (Error invalid_options_message), c)) \<and>
   (publicApiKey options = JString key \<longrightarrow>
      prepareAuthentication options =
        Inr (Public key
               (if truthy (publicAuthorizeEndpoint options) then publicAuthorizeEndpoint options
                else JString ''https://liveblocks.io/api/public/authorize''))) \<and>
   (createClient options = Inr c \<and> publicApiKey options = JString key \<longrightarrow>
      fst (enter c roomId given) = Inr (RoomOf 0) \<and>
      ctx_authentication (room_context (heap (snd (enter c roomId given)) ! 0)) =
        Public key
          (if truthy (publicAuthorizeEndpoint options) then publicAuthorizeEndpoint options
           else JString ''https://liveblocks.io/api/public/authorize''))"
proof (intro conjI impI)
  show pub: "prepareAuthentication options =
        Inr (Public key
               (if truthy (publicAuthorizeEndpoint options) then publicAuthorizeEndpoint options
                else JString ''https://liveblocks.io/api/public/authorize''))"
    if "publicApiKey options = JString key"
    using that by (simp add: prepareAuthentication_def js_or_def)
  have used: "fst (enter c roomId given) = Inr (RoomOf 0) \<and>
      ctx_authentication (room_context (heap (snd (enter c roomId given)) ! 0)) =
        Public key
          (if truthy (publicAuthorizeEndpoint options) then publicAuthorizeEndpoint options
           else JString ''https://liveblocks.io/api/public/authorize'')"
    if h: "createClient options = Inr c \<and> publicApiKey options = JString key"
  proof -
    from h have c: "clientOptions c = options" "map_of (rooms c) roomId = None" "heap c = []"
      using createClient_Inr [of options c] by simp_all
    from h pub have "prepareAuthentication (clientOptions c) =
        Inr (Public key
               (if truthy (publicAuthorizeEndpoint options) then publicAuthorizeEndpoint options
                else JString ''https://liveblocks.io/api/public/authorize''))"
      by (simp add: c)
    with c show ?thesis
      by (simp add: enter_creates new_room_def)
  qed
  from used show "fst (enter c roomId given) = Inr (RoomOf 0)"
    if "createClient options = Inr c \<and> publicApiKey options = JString key"
    using that by simp
  from used show "ctx_authentication (room_context (heap (snd (enter c roomId given)) ! 0)) =
        Public key
          (if truthy (publicAuthorizeEndpoint options) then publicAuthorizeEndpoint options
           else JString ''https://liveblocks.io/api/public/authorize'')"
    if "createClient options = Inr c \<and> publicApiKey options = JString key"
    using that by simp
  show "isl (createClient options) = isl (getThrottleDelayFromOptions options)"
    by (simp add: createClient_def split: sum.splits)
  show "isl (createClient (options\<lparr>publicApiKey := k, authEndpoint := e\<rparr>)) = isl (createClient options)"
    by (simp add: createClient_def getThrottleDelayFromOptions_def split: sum.splits jsval.splits)
  show "isl (prepareAuthentication options) \<longleftrightarrow>
      typeof (publicApiKey options) \<noteq> ''string'' \<and>
      typeof (authEndpoint options) \<noteq> ''string'' \<and>
      typeof (authEndpoint options) \<noteq> ''function''"
    by (rule prepareAuthentication_fails_iff)
  show "prepareAuthentication options = Inl (Error invalid_options_message)"
    if "isl (prepareAuthentication options)"
    using that prepareAuthentication_error [of options]
    by (cases "prepareAuthentication options") auto
  show "enter c roomId given = (Inl (Error invalid_options_message), c)"
    if h: "createClient options = Inr c \<and> isl (prepareAuthentication options)"
  proof -
    from h have c: "clientOptions c = options" "map_of (rooms c) roomId = None"
      using createClient_Inr [of options c] by simp_all
    from h obtain e where e: "prepareAuthentication options = Inl e"
      by (cases "prepareAuthentication options") auto
    with prepareAuthentication_error have "e = Error invalid_options_message" by blast
    with e c show ?thesis by (simp add: enter_throws)
  qed
qed

text \<open>
  Instances: the options \<open>{}\<close>, and options with both a public key and an
  authentication endpoint.
\<close>

theorem createClient_defers_authentication_witness:
  "createClient options_without_auth = Inr client_without_auth \<and>
   isl (prepareAuthentication options_without_auth) \<and>
   prepareAuthentication options_without_auth = Inl (Error invalid_options_message) \<and>
   enter client_without_auth ''r1'' None = (Inl (Error invalid_options_message), client_without_auth) \<and>
   createClient options_with_both = Inr client_with_both \<and>
   publicApiKey options_with_both = JString ''pk_X'' \<and>
   authEndpoint options_with_both = JString ''/api/auth'' \<and>
   prepareAuthentication options_with_both =
     Inr (Public ''pk_X'' (JString ''https://liveblocks.io/api/public/authorize'')) \<and>
   fst (enter client_with_both ''r1'' None) = Inr (RoomOf 0) \<and>
   ctx_authentication (room_context (heap (snd (enter client_with_both ''r1'' None)) ! 0)) =
     Public ''pk_X'' (JString ''https://liveblocks.io/api/public/authorize'')"
proof -
  have p: "isl (prepareAuthentication options_without_auth)"
    by (simp add: prepareAuthentication_without_auth)
  have b: "publicApiKey options_with_both = JString ''pk_X''"
    "authEndpoint options_with_both = JString ''/api/auth''"
    "\<not> truthy (publicAuthorizeEndpoint options_with_both)"
    by (simp_all add: options_with_both_def)
  show ?thesis
    using createClient_without_auth p createClient_with_both b
      createClient_defers_authentication
        [where options = options_without_auth and k = JUndefined and e = JUndefined
           and c = client_without_auth and roomId = "''r1''" and given = None]
      createClient_defers_authentication
        [where options = options_with_both and c = client_with_both and roomId = "''r1''"
           and given = None and key = "''pk_X''"]
    by simp
qed

text \<open>
  C8: \<open>prepareAuthentication\<close> maps a string \<open>publicApiKey\<close> to public authentication with
  that key, whose url is \<open>publicAuthorizeEndpoint\<close> when it is set (truthy, as \<open>||\<close> reads
  it) and the default public-authorize endpoint otherwise; failing that, a string
  \<open>authEndpoint\<close> to private authentication with that url; failing that, a function
  \<open>authEndpoint\<close> to custom authentication with that callback.
\<close>

theorem prepareAuthentication_modes:
  "(publicApiKey options = JString key \<longrightarrow>
      prepareAuthentication options =
        Inr (Public key
               (if truthy (publicAuthorizeEndpoint options) then publicAuthorizeEndpoint options
                else JString ''https://liveblocks.io/api/public/authorize''))) \<and>
   (typeof (publicApiKey options) \<noteq> ''string'' \<and> authEndpoint options = JString url \<longrightarrow>
      prepareAuthentication options = Inr (Private url)) \<and>
   (typeof (publicApiKey options) \<noteq> ''string'' \<and> authEndpoint options = JFunction callback \<longrightarrow>
      prepareAuthentication options = Inr (Custom callback))"
  by (cases "publicApiKey options") (simp_all add: prepareAuthentication_def js_or_def)

text \<open>Instances: a public key with and without an endpoint of its own, a url, a callback.\<close>

theorem prepareAuthentication_modes_witness:
  "prepareAuthentication options_public =
     Inr (Public ''pk_X'' (JString ''https://liveblocks.io/api/public/authorize'')) \<and>
   prepareAuthentication (options_public\<lparr>publicAuthorizeEndpoint := JString ''/authorize''\<rparr>) =
     Inr (Public ''pk_X'' (JString ''/authorize'')) \<and>
   prepareAuthentication (options_without_auth\<lparr>authEndpoint := JString ''/api/auth''\<rparr>) =
     Inr (Private ''/api/auth'') \<and>
   prepareAuthentication (options_without_auth\<lparr>authEndpoint := JFunction 7\<rparr>) = Inr (Custom 7)"
  using prepareAuthentication_modes [of options_public "''pk_X''"]
    prepareAuthentication_modes
      [of "options_public\<lparr>publicAuthorizeEndpoint := JString ''/authorize''\<rparr>" "''pk_X''"]
    prepareAuthentication_modes
      [of "options_without_auth\<lparr>authEndpoint := JString ''/api/auth''\<rparr>" _ "''/api/auth''"]
    prepareAuthentication_modes
      [of "options_without_auth\<lparr>authEndpoint := JFunction 7\<rparr>" _ _ 7]
  by (simp add: options_public_def options_without_auth_def)

text \<open>
  C6, as the claim states it, fails: the client made from the options \<open>{}\<close> holds no
  room under \<open>r1\<close>, and \<open>enter\<close> throws instead of creating one; the heap and the pool
  stay empty.
\<close>

theorem enter_counterexample:
  "createClient options_without_auth = Inr client_without_auth \<and>
   map_of (rooms client_without_auth) ''r1'' = None \<and>
   fst (enter client_without_auth ''r1'' None) = Inl (Error invalid_options_message) \<and>
   heap (snd (enter client_without_auth ''r1'' None)) = [] \<and>
   rooms (snd (enter client_without_auth ''r1'' None)) = []"
  by (simp add: createClient_without_auth)
     (simp add: client_without_auth_def enter_def prepareAuthentication_without_auth)

text \<open>
  C6, amended: if the pool holds a room under \<open>roomId\<close>, \<open>enter\<close> returns that room
  and changes nothing. Otherwise, if \<open>prepareAuthentication\<close> throws on the options of
  the client, \<open>enter\<close> throws that error and changes nothing; and if it returns an
  authentication, \<open>enter\<close> creates a new room at a fresh address, stores it in the pool
  under \<open>roomId\<close>, calls \<open>connect\<close> on it unless the flag
  \<open>DO_NOT_USE_withoutConnecting\<close> is set, and returns the new room.
\<close>

theorem enter_pooled_or_created:
  "(map_of (rooms c) roomId = Some a \<longrightarrow> enter c roomId given = (Inr (RoomOf a), c)) \<and>
   (map_of (rooms c) roomId = None \<and> prepareAuthentication (clientOptions c) = Inl e \<longrightarrow>
      enter c roomId given = (Inl e, c)) \<and>
   (map_of (rooms c) roomId = None \<and> prepareAuthentication (clientOptions c) = Inr auth \<longrightarrow>
      fst (enter c roomId given) = Inr (RoomOf (length (heap c))) \<and>
      rooms (snd (enter c roomId given)) = AList.update roomId (length (heap c)) (rooms c) \<and>
      map_of (rooms (snd (enter c roomId given))) roomId = Some (length (heap c)) \<and>
      heap (snd (enter c roomId given)) = heap c @ [new_room c roomId given auth] \<and>
      calls (heap (snd (enter c roomId given)) ! length (heap c)) =
        (if truthy (DO_NOT_USE_withoutConnecting (enter_options given)) then [] else [Connect]) \<and>
      clientOptions (snd (enter c roomId given)) = clientOptions c \<and>
      throttleDelay (snd (enter c roomId given)) = throttleDelay c)"
  by (simp add: enter_pooled enter_throws enter_creates new_room_def AList.update_conv')

text \<open>
  Instances: a second \<open>enter\<close> of a pooled room, the first \<open>enter\<close> of a client without
  authentication options, and the first \<open>enter\<close> of a client with a public key, with
  and without the flag.
\<close>

theorem enter_pooled_or_created_witness:
  "map_of (rooms client_in_r1) ''r1'' = Some 0 \<and>
   enter client_in_r1 ''r1'' None = (Inr (RoomOf 0), client_in_r1) \<and>
   map_of (rooms client_without_auth) ''r1'' = None \<and>
   enter client_without_auth ''r1'' None = (Inl (Error invalid_options_message), client_without_auth) \<and>
   map_of (rooms client_public) ''r1'' = None \<and>
   fst (enter client_public ''r1'' None) = Inr (RoomOf 0) \<and>
   map_of (rooms (snd (enter client_public ''r1'' None))) ''r1'' = Some 0 \<and>
   calls (heap (snd (enter client_public ''r1'' None)) ! 0) = [Connect] \<and>
   calls (heap (snd (enter client_public ''r1''
            (Some (no_enter_options\<lparr>DO_NOT_USE_withoutConnecting := JBoolean True\<rparr>)))) ! 0) = []"
proof -
  have p0: "map_of (rooms client_without_auth) ''r1'' = None"
    "prepareAuthentication (clientOptions client_without_auth) = Inl (Error invalid_options_message)"
    by (simp_all add: client_without_auth_def prepareAuthentication_without_auth)
  have p1: "prepareAuthentication (clientOptions client_public) =
              Inr (Public ''pk_X'' (JString ''https://liveblocks.io/api/public/authorize''))"
    by (simp add: client_public_def prepareAuthentication_public)
  have r1: "map_of (rooms client_public) ''r1'' = None" "length (heap client_public) = 0"
    by (simp_all add: client_public_def)
  show ?thesis
    using client_in_r1_rooms p0 p1 r1
      enter_pooled_or_created [where c = client_in_r1 and roomId = "''r1''" and a = 0 and given = None]
      enter_pooled_or_created
        [where c = client_without_auth and roomId = "''r1''" and given = None
           and e = "Error invalid_options_message"]
      enter_pooled_or_created
        [where c = client_public and roomId = "''r1''" and given = None
           and auth = "Public ''pk_X'' (JString ''https://liveblocks.io/api/public/authorize'')"]
      enter_pooled_or_created
        [where c = client_public and roomId = "''r1''"
           and given = "Some (no_enter_options\<lparr>DO_NOT_USE_withoutConnecting := JBoolean True\<rparr>)"
           and auth = "Public ''pk_X'' (JString ''https://liveblocks.io/api/public/authorize'')"]
    by (simp add: enter_options_def no_enter_options_def new_room_def AList.update_conv')
qed

text \<open>
  C7: in every state a client can reach, for a room id \<open>r\<close> whose room is pooled,
  \<open>leave\<close> calls \<open>disconnect\<close> on that room and removes the entry of \<open>r\<close> from the
  pool; an \<open>enter\<close> of \<open>r\<close> after it returns a room at a fresh address, not the previous
  one, and pools it. The new room is the one that a new client with the same options
  creates on its first \<open>enter\<close> of \<open>r\<close>, so nothing of the previous room enters it, and
  the previous room is not touched by this \<open>enter\<close>.
\<close>

theorem leave_then_enter_fresh:
  assumes "reachable c" and "map_of (rooms c) r = Some old"
  shows "old < length (heap c) \<and>
         heap (leave c r) = (heap c)[old := (heap c ! old)\<lparr>calls := calls (heap c ! old) @ [Disconnect]\<rparr>] \<and>
         rooms (leave c r) = AList.delete r (rooms c) \<and>
         map_of (rooms (leave c r)) r = None \<and>
         fst (enter (leave c r) r given) = Inr (RoomOf (length (heap c))) \<and>
         length (heap c) \<noteq> old \<and>
         map_of (rooms (snd (enter (leave c r) r given))) r = Some (length (heap c)) \<and>
         heap (snd (enter (leave c r) r given)) ! old = heap (leave c r) ! old \<and>
         \<not> isl (createClient (clientOptions c)) \<and>
         heap (snd (enter (leave c r) r given)) ! length (heap c) =
           heap (snd (enter (projr (createClient (clientOptions c))) r given)) ! 0"
proof -
  from assms reachable_invariant [of c]
  have inv: "getThrottleDelayFromOptions (clientOptions c) = Inr (throttleDelay c)"
    and old: "old < length (heap c)"
    and ok: "\<not> isl (prepareAuthentication (clientOptions c))"
    by auto
  from ok obtain auth where auth: "prepareAuthentication (clientOptions c) = Inr auth"
    by (cases "prepareAuthentication (clientOptions c)") auto
  have lv: "heap (leave c r) = (heap c)[old := (heap c ! old)\<lparr>calls := calls (heap c ! old) @ [Disconnect]\<rparr>]"
    and lr: "rooms (leave c r) = AList.delete r (rooms c)"
    using assms(2) by (simp_all add: leave_def invoke_def)
  have cc: "createClient (clientOptions c) =
              Inr \<lparr>clientOptions = clientOptions c, throttleDelay = throttleDelay c,
                   rooms = [], heap = []\<rparr>"
    using inv by (simp add: createClient_def)
  have e1: "enter (leave c r) r given =
              (Inr (RoomOf (length (heap c))),
               (leave c r)\<lparr>heap := heap (leave c r) @ [new_room (leave c r) r given auth],
                           rooms := AList.update r (length (heap c)) (rooms (leave c r))\<rparr>)"
    using enter_creates [of "leave c r" r auth given] auth by simp
  have e2: "heap (snd (enter (projr (createClient (clientOptions c))) r given)) ! 0 =
              new_room (leave c r) r given auth"
    using auth by (simp add: cc enter_creates new_room_def)
  show ?thesis
    using old lv lr e2 by (simp add: e1 cc nth_append AList.update_conv' AList.delete_conv')
qed

text \<open>
  An instance: the client with a public key, after \<open>enter\<close> of \<open>r1\<close> and an \<open>online\<close>
  event.
\<close>

theorem leave_then_enter_fresh_witness:
  "reachable client_in_r1 \<and> map_of (rooms client_in_r1) ''r1'' = Some 0 \<and>
   calls (heap (leave client_in_r1 ''r1'') ! 0) = [Connect, OnNavigatorOnline, Disconnect] \<and>
   rooms (leave client_in_r1 ''r1'') = [] \<and>
   fst (enter (leave client_in_r1 ''r1'') ''r1'' None) = Inr (RoomOf 1) \<and>
   map_of (rooms (snd (enter (leave client_in_r1 ''r1'') ''r1'' None))) ''r1'' = Some 1 \<and>
   calls (heap (snd (enter (leave client_in_r1 ''r1'') ''r1'' None)) ! 1) = [Connect] \<and>
   calls (heap (snd (enter (leave client_in_r1 ''r1'') ''r1'' None)) ! 0) =
     [Connect, OnNavigatorOnline, Disconnect]"
proof -
  have f: "heap (snd (enter (projr (createClient options_public)) ''r1'' None)) ! 0 =
             new_room client_public ''r1'' None
                (Public ''pk_X'' (JString ''https://liveblocks.io/api/public/authorize''))"
    using enter_creates [of client_public "''r1''" _ None] prepareAuthentication_public
    by (simp add: createClient_public client_public_def)
  have co: "clientOptions client_in_r1 = options_public" "length (heap client_in_r1) = 1"
    "rooms client_in_r1 = [(''r1'', 0)]"
    "calls (heap client_in_r1 ! 0) = [Connect, OnNavigatorOnline]"
    by (simp_all add: client_in_r1_eq)
  show ?thesis
    using client_in_r1_reachable client_in_r1_rooms
      leave_then_enter_fresh [OF client_in_r1_reachable client_in_r1_rooms, of None]
    by (simp add: co f new_room_def enter_options_def no_enter_options_def)
qed

section \<open>The message codes\<close>

text \<open>
  C9: the codes of the messages from the client to the server are 100 for
  \<open>UPDATE_PRESENCE\<close>, 103 for \<open>BROADCAST_EVENT\<close>, 200 for \<open>FETCH_STORAGE\<close> and 201 for
  \<open>UPDATE_STORAGE\<close>, four distinct values and no other; and every message has one of the
  four shapes: presence data with an optional target actor, an event, a list of ops, or
  nothing, under the code of its shape.
\<close>

theorem ClientMsgCode_values:
  "ClientMsgCode_value UPDATE_PRESENCE = 100 \<and>
   ClientMsgCode_value BROADCAST_EVENT = 103 \<and>
   ClientMsgCode_value FETCH_STORAGE = 200 \<and>
   ClientMsgCode_value UPDATE_STORAGE = 201 \<and>
   ClientMsgCode_value code \<in> {100, 103, 200, 201} \<and>
   (ClientMsgCode_value code = ClientMsgCode_value code') = (code = code') \<and>
   ((\<exists>data targetActor. msg = UpdatePresenceClientMsg data targetActor \<and>
        ClientMsgCode_value (ClientMsg_type msg) = 100) \<or>
    (\<exists>event. msg = BroadcastEventClientMsg event \<and>
        ClientMsgCode_value (ClientMsg_type msg) = 103) \<or>
    (\<exists>ops. msg = UpdateStorageClientMsg ops \<and>
        ClientMsgCode_value (ClientMsg_type msg) = 201) \<or>
    (msg = FetchStorageClientMsg \<and> ClientMsgCode_value (ClientMsg_type msg) = 200))"
proof -
  have range_of_codes: "ClientMsgCode_value code \<in> {100, 103, 200, 201}"
    by (cases code) simp_all
  have codes_distinct: "(ClientMsgCode_value code = ClientMsgCode_value code') = (code = code')"
    by (cases code; cases code') simp_all
  have four_shapes: "(\<exists>data targetActor. msg = UpdatePresenceClientMsg data targetActor \<and>
        ClientMsgCode_value (ClientMsg_type msg) = 100) \<or>
    (\<exists>event. msg = BroadcastEventClientMsg event \<and>
        ClientMsgCode_value (ClientMsg_type msg) = 103) \<or>
    (\<exists>ops. msg = UpdateStorageClientMsg ops \<and>
        ClientMsgCode_value (ClientMsg_type msg) = 201) \<or>
    (msg = FetchStorageClientMsg \<and> ClientMsgCode_value (ClientMsg_type msg) = 200)"
    by (cases msg) simp_all
  from range_of_codes codes_distinct four_shapes show ?thesis by simp
qed

section \<open>Registers and the node kernel\<close>

lemma data_of_update [simp]:
  "data_of (n\<lparr>crdt_parent := p\<rparr>) = data_of n"
  "data_of (n\<lparr>crdt_doc := d\<rparr>) = data_of n"
  "data_of (n\<lparr>crdt_id := i\<rparr>) = data_of n"
  "data_of (n\<lparr>crdt_parentKey := k\<rparr>) = data_of n"
  by (simp_all add: data_of_def)

lemma setParentLink_data: "data_of (nodes (snd (setParentLink s this parent key)) a) = data_of (nodes s a)"
  by (simp add: setParentLink_def)

lemma attach_data: "data_of (nodes (snd (attach s this ident doc)) a) = data_of (nodes s a)"
  by (simp add: attach_def Let_def)

lemma detach_data: "data_of (nodes (detach s this) a) = data_of (nodes s a)"
  by (simp add: detach_def Let_def split: option.splits)

lemma serialize_data:
  "data_of (nodes (snd (LiveRegister_serialize s this parentId parentKey doc)) a) = data_of (nodes s a)"
  by (simp add: LiveRegister_serialize_def Let_def split: option.splits prod.splits)

lemma detachChild_data:
  "keeps_data container \<Longrightarrow>
   data_of (nodes (snd (detachChild container s parent child)) a) = data_of (nodes s a)"
  by (simp add: detachChild_def LiveRegister_detachChild_def keeps_data_def split: crdt_class.splits)

lemma apply_data:
  "keeps_data container \<Longrightarrow>
   data_of (nodes (snd (LiveRegister_apply container s this op isLocal)) a) = data_of (nodes s a)"
  by (simp add: LiveRegister_apply_def AbstractCrdt_apply_def detachChild_data
      split: OpCode.splits option.splits)

lemma call_data:
  "keeps_data container \<Longrightarrow> data_of (nodes (call container s m) a) = data_of (nodes s a)"
  by (cases m)
     (simp_all add: apply_data setParentLink_data attach_data detach_data serialize_data
        detachChild_data LiveRegister_attachChild_def)

lemma calls_data:
  "keeps_data container \<Longrightarrow> data_of (nodes (foldl (call container) s ms) a) = data_of (nodes s a)"
  by (induction ms arbitrary: s) (simp_all add: call_data)


lemma data_of_without_child [simp]:
  "data_of (n\<lparr>crdt_class := without_child child (crdt_class n)\<rparr>) = data_of n"
  by (cases "crdt_class n") (simp_all add: data_of_def)

lemma LiveContainer_detachChild_data:
  "data_of (nodes (snd (LiveContainer_detachChild s parent child)) a) = data_of (nodes s a)"
proof (cases "crdt_class (nodes s child)")
  case (LiveContainer children)
  then show ?thesis
    by (simp add: LiveContainer_detachChild_def Let_def detach_data)
next
  case (LiveRegister d)
  show ?thesis
  proof (cases "LiveRegister_serialize s child (crdt_id (nodes s parent))
                  (crdt_parentKey (nodes s child)) (crdt_doc (nodes s parent))")
    case (Pair r s1)
    then have "data_of (nodes s1 a) = data_of (nodes s a)" for a
      using serialize_data [of s child "crdt_id (nodes s parent)" "crdt_parentKey (nodes s child)"
          "crdt_doc (nodes s parent)" a]
      by simp
    with Pair LiveRegister show ?thesis
      by (cases r) (simp_all add: LiveContainer_detachChild_def Let_def detach_data)
  qed
qed

lemma LiveContainer_detachChild_keeps_data: "keeps_data LiveContainer_detachChild"
  by (simp add: keeps_data_def LiveContainer_detachChild_data)

lemma detach_node:
  "nodes (detach s this) this = (nodes s this)\<lparr>crdt_parent := None, crdt_doc := None\<rparr>"
  by (simp add: detach_def Let_def split: option.splits)

lemma serialize_nodes:
  "nodes (snd (LiveRegister_serialize s this parentId parentKey doc)) = nodes s"
  by (simp add: LiveRegister_serialize_def Let_def split: option.splits prod.splits)

lemma LiveContainer_detachChild_register:
  assumes "crdt_class (nodes s child) = LiveRegister d"
    and "crdt_class (nodes s parent) = LiveContainer children"
  shows "nodes (snd (LiveContainer_detachChild s parent child)) child = nodes s child \<or>
         nodes (snd (LiveContainer_detachChild s parent child)) child =
           (nodes s child)\<lparr>crdt_parent := None, crdt_doc := None\<rparr>"
proof (cases "LiveRegister_serialize s child (crdt_id (nodes s parent))
                (crdt_parentKey (nodes s child)) (crdt_doc (nodes s parent))")
  case (Pair r s1)
  then have n: "nodes s1 = nodes s"
    using serialize_nodes [of s child "crdt_id (nodes s parent)" "crdt_parentKey (nodes s child)"
        "crdt_doc (nodes s parent)"]
    by simp
  from assms have ne: "child \<noteq> parent" by auto
  from Pair assms n ne show ?thesis
    by (cases r) (simp_all add: LiveContainer_detachChild_def Let_def detach_node)
qed

text \<open>
  C3: the value of a register is never changed in place. With the \<open>_detachChild\<close> of
  the containers as the spec describes it, for every op and both values of the local
  flag \<open>_apply\<close> leaves the \<open>_data\<close> of a register equal to the value it was constructed
  with. The only effect \<open>_apply\<close> can have on a register is to detach it from its parent
  on \<open>DELETE_CRDT\<close>: the register is left as it is, or the op is \<open>DELETE_CRDT\<close> and the
  register has lost its parent link and its document and nothing else; on any other op
  \<open>_apply\<close> changes no state, whatever the containers do. No method of the class, its
  own or inherited, assigns to \<open>_data\<close>: after any sequence of method calls the value is
  still the one of the construction.
\<close>

theorem LiveRegister_data_immutable:
  assumes "data_of (nodes s this) = Some d"
  shows "data_of (LiveRegister_new d) = Some d \<and>
         data_of (nodes (snd (LiveRegister_apply LiveContainer_detachChild s this op isLocal)) this) =
           Some d \<and>
         (nodes (snd (LiveRegister_apply LiveContainer_detachChild s this op isLocal)) this =
            nodes s this \<or>
          op_type op = DELETE_CRDT \<and>
          nodes (snd (LiveRegister_apply LiveContainer_detachChild s this op isLocal)) this =
            (nodes s this)\<lparr>crdt_parent := None, crdt_doc := None\<rparr>) \<and>
         (snd (LiveRegister_apply LiveContainer_detachChild s this op isLocal) = s \<or>
          op_type op = DELETE_CRDT \<and>
          (case crdt_parent (nodes s this) of
             None \<Rightarrow> False
           | Some parent \<Rightarrow>
               LiveRegister_apply LiveContainer_detachChild s this op isLocal =
                 LiveContainer_detachChild s parent this)) \<and>
         (op_type op \<noteq> DELETE_CRDT \<longrightarrow>
            LiveRegister_apply container s this op isLocal = (Inr NotModified, s)) \<and>
         data_of (nodes (foldl (call LiveContainer_detachChild) s ms) this) = Some d"
proof -
  from assms obtain reg: "crdt_class (nodes s this) = LiveRegister d"
    by (cases "crdt_class (nodes s this)") (simp_all add: data_of_def)
  have new: "data_of (LiveRegister_new d) = Some d"
    by (simp add: data_of_def LiveRegister_new_def)
  have ap: "data_of (nodes (snd (LiveRegister_apply LiveContainer_detachChild s this op isLocal)) this) =
              Some d"
    using assms by (simp add: apply_data LiveContainer_detachChild_keeps_data)
  have eff: "snd (LiveRegister_apply LiveContainer_detachChild s this op isLocal) = s \<or>
          op_type op = DELETE_CRDT \<and>
          (case crdt_parent (nodes s this) of
             None \<Rightarrow> False
           | Some parent \<Rightarrow>
               LiveRegister_apply LiveContainer_detachChild s this op isLocal =
                 LiveContainer_detachChild s parent this)"
    by (simp add: LiveRegister_apply_def AbstractCrdt_apply_def detachChild_def
        LiveRegister_detachChild_def split: OpCode.splits option.splits crdt_class.splits)
  have node: "nodes (snd (LiveRegister_apply LiveContainer_detachChild s this op isLocal)) this =
            nodes s this \<or>
          op_type op = DELETE_CRDT \<and>
          nodes (snd (LiveRegister_apply LiveContainer_detachChild s this op isLocal)) this =
            (nodes s this)\<lparr>crdt_parent := None, crdt_doc := None\<rparr>"
  proof (cases "op_type op = DELETE_CRDT")
    case False
    then show ?thesis
      by (simp add: LiveRegister_apply_def AbstractCrdt_apply_def split: OpCode.splits)
  next
    case del: True
    show ?thesis
    proof (cases "crdt_parent (nodes s this)")
      case None
      with del show ?thesis by (simp add: LiveRegister_apply_def AbstractCrdt_apply_def)
    next
      case (Some parent)
      show ?thesis
      proof (cases "crdt_parentKey (nodes s this)")
        case None
        with del Some show ?thesis by (simp add: LiveRegister_apply_def AbstractCrdt_apply_def)
      next
        case key: (Some key)
        show ?thesis
        proof (cases "crdt_class (nodes s parent)")
          case (LiveRegister d')
          with del Some key show ?thesis
            by (simp add: LiveRegister_apply_def AbstractCrdt_apply_def detachChild_def
                LiveRegister_detachChild_def)
        next
          case (LiveContainer children)
          with del Some key have "LiveRegister_apply LiveContainer_detachChild s this op isLocal =
              LiveContainer_detachChild s parent this"
            by (simp add: LiveRegister_apply_def AbstractCrdt_apply_def detachChild_def)
          with del LiveContainer_detachChild_register [OF reg LiveContainer] show ?thesis
            by simp
        qed
      qed
    qed
  qed
  have other: "LiveRegister_apply container s this op isLocal = (Inr NotModified, s)"
    if "op_type op \<noteq> DELETE_CRDT"
    using that by (simp add: LiveRegister_apply_def AbstractCrdt_apply_def split: OpCode.splits)
  have sq: "data_of (nodes (foldl (call LiveContainer_detachChild) s ms) this) = Some d"
    using assms by (simp add: calls_data LiveContainer_detachChild_keeps_data)
  from new ap node eff other sq show ?thesis by simp
qed

text \<open>
  An instance: the register of the example store under its container, on
  \<open>DELETE_CRDT\<close>. The result carries the op that creates the register again, the
  register has lost its parent and its document, the container has lost its child, and
  the value of the register is the same, also after a sequence of calls.
\<close>

theorem LiveRegister_data_immutable_witness:
  "data_of (nodes example_store 2) = Some (JsonNumber (Finite 5)) \<and>
   fst (LiveRegister_apply LiveContainer_detachChild example_store 2 delete_op False) =
     Inr (Modified
            [\<lparr>op_type = CREATE_REGISTER, op_opId = Some ''o'', op_id = ''1:1'',
              op_parentId = Some ''0:0'', op_parentKey = Some ''x'',
              op_data = Some (JsonNumber (Finite 5))\<rparr>]
            (ChildDeleted 1 (Some ''x''))) \<and>
   nodes (snd (LiveRegister_apply LiveContainer_detachChild example_store 2 delete_op False)) 2 =
     register_node\<lparr>crdt_parent := None, crdt_doc := None\<rparr> \<and>
   crdt_class (nodes (snd (LiveRegister_apply LiveContainer_detachChild example_store 2 delete_op False)) 1) =
     LiveContainer [] \<and>
   data_of (nodes (snd (LiveRegister_apply LiveContainer_detachChild example_store 2 delete_op False)) 2) =
     Some (JsonNumber (Finite 5)) \<and>
   LiveRegister_apply LiveContainer_detachChild example_store 2
     (delete_op\<lparr>op_type := UPDATE_OBJECT\<rparr>) True = (Inr NotModified, example_store) \<and>
   data_of (nodes (foldl (call LiveContainer_detachChild) example_store
      [Call_setParentLink 2 1 ''y'', Call_apply 2 delete_op True, Call_detach 2]) 2) =
     Some (JsonNumber (Finite 5))"
proof -
  have d: "data_of (nodes example_store 2) = Some (JsonNumber (Finite 5))"
    by (simp add: example_store_def register_node_def data_of_def)
  have r: "LiveRegister_apply LiveContainer_detachChild example_store 2 delete_op False =
     (Inr (Modified
            [\<lparr>op_type = CREATE_REGISTER, op_opId = Some ''o'', op_id = ''1:1'',
              op_parentId = Some ''0:0'', op_parentKey = Some ''x'',
              op_data = Some (JsonNumber (Finite 5))\<rparr>]
            (ChildDeleted 1 (Some ''x''))),
      snd (LiveContainer_detachChild example_store 1 2))"
    by (simp add: LiveRegister_apply_def AbstractCrdt_apply_def detachChild_def
        LiveContainer_detachChild_def LiveRegister_serialize_def generateOpId_def
        example_store_def register_node_def root_node_def root_doc_def delete_op_def
        data_of_def Let_def)
  have n: "nodes (snd (LiveContainer_detachChild example_store 1 2)) 2 =
             register_node\<lparr>crdt_parent := None, crdt_doc := None\<rparr>"
    "crdt_class (nodes (snd (LiveContainer_detachChild example_store 1 2)) 1) = LiveContainer []"
    by (simp_all add: LiveContainer_detachChild_def LiveRegister_serialize_def generateOpId_def
        detach_def example_store_def register_node_def root_node_def root_doc_def
        data_of_def Let_def)
  have u: "op_type (delete_op\<lparr>op_type := UPDATE_OBJECT\<rparr>) \<noteq> DELETE_CRDT" by simp
  show ?thesis
    using d u r n
      LiveRegister_data_immutable
        [OF d, where op = delete_op and isLocal = False
           and container = LiveContainer_detachChild
           and ms = "[Call_setParentLink 2 1 ''y'', Call_apply 2 delete_op True, Call_detach 2]"]
      LiveRegister_data_immutable
        [OF d, where op = "delete_op\<lparr>op_type := UPDATE_OBJECT\<rparr>" and isLocal = True
           and container = LiveContainer_detachChild and ms = "[]"]
    by simp
qed

text \<open>
  C10: for an op whose type is not \<open>DELETE_CRDT\<close> the \<open>_apply\<close> of \<open>AbstractCrdt\<close>
  returns \<open>{ modified: false }\<close> and changes no state; for \<open>DELETE_CRDT\<close> it does the same
  when the parent or the parent key of the node is unset, and otherwise it calls the
  \<open>_detachChild\<close> of the parent on the node and returns its result.
\<close>

theorem AbstractCrdt_apply_cases:
  "(op_type op \<noteq> DELETE_CRDT \<longrightarrow>
      AbstractCrdt_apply container s this op isLocal = (Inr NotModified, s)) \<and>
   (op_type op = DELETE_CRDT \<and>
    (crdt_parent (nodes s this) = None \<or> crdt_parentKey (nodes s this) = None) \<longrightarrow>
      AbstractCrdt_apply container s this op isLocal = (Inr NotModified, s)) \<and>
   (op_type op = DELETE_CRDT \<and> crdt_parent (nodes s this) = Some parent \<and>
    crdt_parentKey (nodes s this) = Some key \<longrightarrow>
      AbstractCrdt_apply container s this op isLocal = detachChild container s parent this)"
  by (cases "op_type op") (auto simp: AbstractCrdt_apply_def split: option.splits)

text \<open>Instances: an update op, a delete op on the root, a delete op on the register.\<close>

theorem AbstractCrdt_apply_cases_witness:
  "AbstractCrdt_apply container_detachChild example_store 2 (delete_op\<lparr>op_type := UPDATE_OBJECT\<rparr>) True =
     (Inr NotModified, example_store) \<and>
   AbstractCrdt_apply container_detachChild example_store 1 delete_op True =
     (Inr NotModified, example_store) \<and>
   AbstractCrdt_apply container_detachChild example_store 2 delete_op True =
     detachChild container_detachChild example_store 1 2 \<and>
   detachChild container_detachChild example_store 1 2 =
     (Inr (Modified [] ()), detach example_store 2)"
proof -
  have h1: "op_type (delete_op\<lparr>op_type := UPDATE_OBJECT\<rparr>) \<noteq> DELETE_CRDT" by simp
  have h2: "op_type delete_op = DELETE_CRDT" by (simp add: delete_op_def)
  have h3: "crdt_parent (nodes example_store 1) = None"
    by (simp add: example_store_def root_node_def)
  have h4: "crdt_parent (nodes example_store 2) = Some 1"
           "crdt_parentKey (nodes example_store 2) = Some ''x''"
    by (simp_all add: example_store_def register_node_def)
  have h5: "detachChild container_detachChild example_store 1 2 =
     (Inr (Modified [] ()), detach example_store 2)"
    by (simp add: detachChild_def container_detachChild_def example_store_def root_node_def)
  show ?thesis
    using h1 h2 h3 h4 h5
      AbstractCrdt_apply_cases
        [where op = "delete_op\<lparr>op_type := UPDATE_OBJECT\<rparr>" and container = container_detachChild
           and s = example_store and this = 2 and isLocal = True]
      AbstractCrdt_apply_cases
        [where op = delete_op and container = container_detachChild and s = example_store
           and this = 1 and isLocal = True]
      AbstractCrdt_apply_cases
        [where op = delete_op and container = container_detachChild and s = example_store
           and this = 2 and isLocal = True and parent = 1 and key = "''x''"]
    by simp
qed


text \<open>
  C4: ops are emitted for attached nodes only. \<open>_serialize\<close> throws when the register
  has no id; when it has one, \<open>_serialize\<close> with a parent id and a parent key returns
  exactly one op, of type \<open>CREATE_REGISTER\<close>, whose id is the id of the register and
  whose \<open>parentId\<close>, \<open>parentKey\<close> and \<open>data\<close> are the given parent id, the given parent
  key and the value of the register; its \<open>opId\<close> is the next op id of the document, if
  one is given. No node changes.
\<close>

theorem LiveRegister_serialize_attached_only:
  "(crdt_id (nodes s this) = None \<longrightarrow>
      LiveRegister_serialize s this parentId parentKey doc =
        (Inl (Error ''Cannot serialize register if parentId or parentKey is undefined''), s)) \<and>
   (crdt_id (nodes s this) = Some ident \<and> crdt_class (nodes s this) = LiveRegister d \<longrightarrow>
      fst (LiveRegister_serialize s this (Some pid) (Some pkey) doc) =
        Inr [\<lparr>op_type = CREATE_REGISTER,
              op_opId = (case doc of None \<Rightarrow> None
                         | Some a \<Rightarrow> Some (doc_opIds (docs s a) (doc_opClock (docs s a)))),
              op_id = ident, op_parentId = Some pid, op_parentKey = Some pkey,
              op_data = Some d\<rparr>] \<and>
      nodes (snd (LiveRegister_serialize s this (Some pid) (Some pkey) doc)) = nodes s)"
  by (cases doc) (simp_all add: LiveRegister_serialize_def generateOpId_def data_of_def)

text \<open>Instances: a detached register, and the attached one with and without a document.\<close>

theorem LiveRegister_serialize_attached_only_witness:
  "LiveRegister_serialize example_store 3 (Some ''0:0'') (Some ''x'') (Some 0) =
     (Inl (Error ''Cannot serialize register if parentId or parentKey is undefined''), example_store) \<and>
   fst (LiveRegister_serialize example_store 2 (Some ''0:0'') (Some ''x'') (Some 0)) =
     Inr [\<lparr>op_type = CREATE_REGISTER, op_opId = Some ''o'', op_id = ''1:1'',
           op_parentId = Some ''0:0'', op_parentKey = Some ''x'',
           op_data = Some (JsonNumber (Finite 5))\<rparr>] \<and>
   fst (LiveRegister_serialize example_store 2 (Some ''0:0'') (Some ''x'') None) =
     Inr [\<lparr>op_type = CREATE_REGISTER, op_opId = None, op_id = ''1:1'',
           op_parentId = Some ''0:0'', op_parentKey = Some ''x'',
           op_data = Some (JsonNumber (Finite 5))\<rparr>]"
proof -
  have h1: "crdt_id (nodes example_store 3) = None"
    by (simp add: example_store_def LiveRegister_new_def)
  have h2: "crdt_id (nodes example_store 2) = Some ''1:1''"
    "crdt_class (nodes example_store 2) = LiveRegister (JsonNumber (Finite 5))"
    by (simp_all add: example_store_def register_node_def)
  have h3: "doc_opIds (docs example_store 0) (doc_opClock (docs example_store 0)) = ''o''"
    by (simp add: example_store_def root_doc_def)
  show ?thesis
    using h1 h2 h3
      LiveRegister_serialize_attached_only
        [where s = example_store and this = 3 and parentId = "Some ''0:0''"
           and parentKey = "Some ''x''" and doc = "Some 0"]
      LiveRegister_serialize_attached_only
        [where s = example_store and this = 2 and ident = "''1:1''"
           and d = "JsonNumber (Finite 5)" and pid = "''0:0''" and pkey = "''x''" and doc = "Some 0"]
      LiveRegister_serialize_attached_only
        [where s = example_store and this = 2 and ident = "''1:1''"
           and d = "JsonNumber (Finite 5)" and pid = "''0:0''" and pkey = "''x''" and doc = None]
    by simp
qed

text \<open>
  C5: a node has one parent. When the node has a parent other than the given one,
  \<open>_setParentLink\<close> throws \<open>Cannot attach parent if it already exist\<close> and changes
  nothing, so the parent and the parent key stay; otherwise it sets the parent key to
  the given key and the parent to the given node. In both cases a node that has a
  parent keeps that parent.
\<close>

theorem setParentLink_single_parent:
  "(crdt_parent (nodes s this) = Some other \<and> other \<noteq> parent \<longrightarrow>
      setParentLink s this parent key =
        (Inl (Error ''Cannot attach parent if it already exist''), s)) \<and>
   (crdt_parent (nodes s this) = None \<or> crdt_parent (nodes s this) = Some parent \<longrightarrow>
      setParentLink s this parent key =
        (Inr (),
         s\<lparr>nodes := (nodes s)
              (this := (nodes s this)\<lparr>crdt_parentKey := Some key, crdt_parent := Some parent\<rparr>)\<rparr>) \<and>
      crdt_parent (nodes (snd (setParentLink s this parent key)) this) = Some parent \<and>
      crdt_parentKey (nodes (snd (setParentLink s this parent key)) this) = Some key) \<and>
   (crdt_parent (nodes s this) = Some other \<longrightarrow>
      crdt_parent (nodes (snd (setParentLink s this parent key)) this) = Some other)"
  by (auto simp: setParentLink_def)

text \<open>
  Instances: the register under another parent, a detached register, and the register
  under its own parent with a new key.
\<close>

theorem setParentLink_single_parent_witness:
  "setParentLink example_store 2 4 ''y'' =
     (Inl (Error ''Cannot attach parent if it already exist''), example_store) \<and>
   crdt_parent (nodes (snd (setParentLink example_store 2 4 ''y'')) 2) = Some 1 \<and>
   crdt_parentKey (nodes (snd (setParentLink example_store 2 4 ''y'')) 2) = Some ''x'' \<and>
   fst (setParentLink example_store 3 1 ''y'') = Inr () \<and>
   crdt_parent (nodes (snd (setParentLink example_store 3 1 ''y'')) 3) = Some 1 \<and>
   crdt_parentKey (nodes (snd (setParentLink example_store 3 1 ''y'')) 3) = Some ''y'' \<and>
   fst (setParentLink example_store 2 1 ''z'') = Inr () \<and>
   crdt_parent (nodes (snd (setParentLink example_store 2 1 ''z'')) 2) = Some 1 \<and>
   crdt_parentKey (nodes (snd (setParentLink example_store 2 1 ''z'')) 2) = Some ''z''"
proof -
  have h1: "crdt_parent (nodes example_store 2) = Some 1" "(1::nat) \<noteq> 4"
    "crdt_parentKey (nodes example_store 2) = Some ''x''"
    by (simp_all add: example_store_def register_node_def)
  have h2: "crdt_parent (nodes example_store 3) = None"
    by (simp add: example_store_def LiveRegister_new_def)
  show ?thesis
    using h1 h2
      setParentLink_single_parent
        [where s = example_store and this = 2 and other = 1 and parent = 4 and key = "''y''"]
      setParentLink_single_parent
        [where s = example_store and this = 3 and parent = 1 and key = "''y''"]
      setParentLink_single_parent
        [where s = example_store and this = 2 and other = 1 and parent = 1 and key = "''z''"]
    by simp
qed

end
